theory Spec2Isabelle
  imports Main "HOL-Library.Word" "HOL-Library.Signed_Division"
begin

section \<open>The melody sequencer of Zeal (src/Zeal/melody.cpp)\<close>

text \<open>
  The class \<open>Melody\<close> cycles through a list of spell gems.  Its member functions
  \<open>start\<close>, \<open>end\<close>, \<open>handle_stop_cast_callback\<close> and \<open>tick\<close> are embedded below as
  functions on a record of the three data members; every call into the game client is
  either a read of a snapshot of the client (the record \<open>host\<close>) or an emitted command
  (the datatype \<open>host_call\<close>, returned in call order).

  The header \<open>melody.h\<close> is not part of the sources at hand.  The members
  \<open>current_index\<close> and \<open>retry_count\<close> are integers that the code compares with \<open>0\<close>,
  \<open>-1\<close> and \<open>songs.size()\<close>; they are modelled as \<open>int\<close>.  The only arithmetic on them
  is \<open>++\<close> and \<open>--\<close>, and \<open>retry_count\<close> is checked against 15 on every tick, so no claim
  below depends on wrap-around (signed overflow is undefined in C++ in any case).  The
  timestamps are \<open>ULONGLONG\<close>, whose subtraction wraps: they are 64-bit words.
\<close>

subsection \<open>The game client as seen by the sequencer\<close>

datatype Stance = Stand | Sit | Duck | Bind

record EQACTORINFO =
  CastingSpellGemNumber :: int

record Entity =
  StandingState :: Stance
  ActorInfo :: "EQACTORINFO option"

text \<open>
  \<open>MemorizedSpell\<close> is an array of spell ids indexed by gem; it is a function here, so
  a read is whatever the client's memory holds at that index.  \<open>start\<close> only reads it at
  indices it has checked against \<open>EQ_NUM_SPELL_GEMS\<close>.
\<close>

record EQCHARINFO =
  StunnedState :: int
  MemorizedSpell :: "int \<Rightarrow> int"
  Class :: int

text \<open>
  A pointer that may be null is an \<open>option\<close>.  \<open>Casting\<close> is \<open>Windows->Casting\<close>:
  \<open>None\<close> when the window does not exist, otherwise its \<open>IsVisible\<close> flag.  \<open>get_eq\<close> is
  \<open>None\<close> for a null pointer, otherwise the answer of \<open>IsOkToTransact()\<close>.
  \<open>get_spell_mgr\<close> gives, for a spell id, the \<open>TargetType\<close> of \<open>Spells[id]\<close>.
  \<open>GetTickCount64_init\<close> is the clock read by the initialiser of the two static locals
  of \<open>tick\<close> (it runs once, the first time control passes their declaration), and
  \<open>GetTickCount64\<close> the read that follows it on every tick.  \<open>EQ_NUM_SPELL_GEMS\<close> and
  \<open>ClassTypes_Bard\<close> are constants of headers outside the sources; they are parameters.
\<close>

record host =
  is_in_game :: bool
  get_char_info :: "EQCHARINFO option"
  get_self :: "Entity option"
  Casting :: "bool option"
  get_eq :: "bool option"
  get_spell_mgr :: "(int \<Rightarrow> int) option"
  get_target :: bool
  GetTickCount64_init :: "64 word"
  GetTickCount64 :: "64 word"
  EQ_NUM_SPELL_GEMS :: int
  ClassTypes_Bard :: int

datatype chat_color = USERCOLOR_SPELL_FAILURE | USERCOLOR_SPELLS

text \<open>
  Commands sent to the client: \<open>print_chat\<close> with its colour, format string and
  arguments; the original (unhooked) \<open>StopCast\<close> with \<open>u\<close>, \<open>reason\<close> and \<open>spell_id\<close>;
  \<open>char_info->cast\<close> with its four arguments.
\<close>

datatype host_call =
  print_chat chat_color string "int list"
| StopCast_original int "8 word" int
| cast int int int int

subsection \<open>The sequencer's state\<close>

record Melody =
  songs :: "int list"
  current_index :: int
  retry_count :: int

definition RETRY_COUNT_REWIND_LIMIT :: int where
  "RETRY_COUNT_REWIND_LIMIT = 8"

definition RETRY_COUNT_END_LIMIT :: int where
  "RETRY_COUNT_END_LIMIT = 15"

subsection \<open>\<open>Melody::start\<close>\<close>

text \<open>
  The loop over \<open>new_songs\<close> that returns at the first bad gem: \<open>Some\<close> of the message
  it prints there, \<open>None\<close> when every gem passes.
\<close>

fun check_gems :: "int \<Rightarrow> EQCHARINFO \<Rightarrow> int list \<Rightarrow> host_call option" where
  "check_gems n char_info [] = None"
| "check_gems n char_info (gem_index # rest) =
     (if gem_index < 0 \<or> gem_index \<ge> n
      then Some (print_chat USERCOLOR_SPELL_FAILURE ''Error: Invalid spell gem %i'' [gem_index + 1])
      else if MemorizedSpell char_info gem_index = -1
      then Some (print_chat USERCOLOR_SPELL_FAILURE ''Error: spell gem %i is empty'' [gem_index + 1])
      else check_gems n char_info rest)"

definition start :: "host \<Rightarrow> int list \<Rightarrow> Melody \<Rightarrow> bool \<times> Melody \<times> host_call list" where
  "start h new_songs m =
     (if \<not> is_in_game h then (False, m, [])
      else (case get_char_info h of
        None \<Rightarrow> (False, m, [print_chat USERCOLOR_SPELL_FAILURE ''Can not start melody while stunned.'' []])
      | Some char_info \<Rightarrow>
          (if StunnedState char_info \<noteq> 0
           then (False, m, [print_chat USERCOLOR_SPELL_FAILURE ''Can not start melody while stunned.'' []])
           else (case get_self h of
             None \<Rightarrow> (False, m, [print_chat USERCOLOR_SPELL_FAILURE ''Can only start melody when standing.'' []])
           | Some self \<Rightarrow>
               (if StandingState self \<noteq> Stand
                then (False, m, [print_chat USERCOLOR_SPELL_FAILURE ''Can only start melody when standing.'' []])
                else (case check_gems (EQ_NUM_SPELL_GEMS h) char_info new_songs of
                  Some complaint \<Rightarrow> (False, m, [complaint])
                | None \<Rightarrow>
                    (True,
                     m\<lparr>songs := new_songs, current_index := -1, retry_count := 0\<rparr>,
                     (if new_songs \<noteq> []
                      then [print_chat USERCOLOR_SPELLS ''You begin playing a melody.'' []]
                      else []))))))))"

subsection \<open>\<open>Melody::end\<close>\<close>

definition end_melody :: "Melody \<Rightarrow> Melody \<times> host_call list" where
  "end_melody m =
     (if songs m \<noteq> []
      then (m\<lparr>current_index := -1, songs := [], retry_count := 0\<rparr>,
            [print_chat USERCOLOR_SPELL_FAILURE ''Your melody has ended.'' []])
      else (m, []))"

subsection \<open>\<open>Melody::handle_stop_cast_callback\<close>\<close>

text \<open>
  \<open>(current_index >= 0) && (++retry_count % RETRY_COUNT_REWIND_LIMIT)\<close>: the right
  operand of \<open>&&\<close>, and with it the increment, is evaluated only when the left one
  holds.  C++'s \<open>%\<close> truncates towards zero: it is \<open>smod\<close>.
\<close>

definition handle_stop_cast_callback :: "8 word \<Rightarrow> Melody \<Rightarrow> Melody \<times> host_call list" where
  "handle_stop_cast_callback reason m =
     (if reason \<noteq> 3 \<or> songs m = [] then end_melody m
      else if current_index m \<ge> 0
      then let m1 = m\<lparr>retry_count := retry_count m + 1\<rparr> in
           if retry_count m1 smod RETRY_COUNT_REWIND_LIMIT \<noteq> 0
           then let m2 = m1\<lparr>current_index := current_index m1 - 1\<rparr> in
                if current_index m2 < 0
                then (m2\<lparr>current_index := int (length (songs m2)) - 1\<rparr>, [])
                else (m2, [])
           else (m1, [])
      else (m, []))"

subsection \<open>\<open>Melody::stop_current_cast\<close> and \<open>Melody::tick\<close>\<close>

text \<open>
  \<open>stop_current_cast\<close> calls the original \<open>StopCast\<close>, not the hook, so the callback
  above does not run from it.
\<close>

definition stop_current_cast :: "host \<Rightarrow> Melody \<Rightarrow> host_call list" where
  "stop_current_cast h m =
     (case get_char_info h of
        None \<Rightarrow> []
      | Some char_info \<Rightarrow>
          (if current_index m \<ge> 0 \<and> current_index m < int (length (songs m))
           then [StopCast_original 0 0 (MemorizedSpell char_info (songs m ! nat (current_index m)))]
           else []))"

text \<open>
  The two static locals of \<open>tick\<close>.  They are \<open>None\<close> until control first passes
  their declaration, which stands after the termination checks.
\<close>

record tick_statics =
  casting_visible_timestamp :: "64 word"
  start_of_cast_timestamp :: "64 word"

definition init_statics :: "host \<Rightarrow> tick_statics option \<Rightarrow> tick_statics" where
  "init_statics h statics =
     (case statics of
        None \<Rightarrow> \<lparr>casting_visible_timestamp = GetTickCount64_init h,
                 start_of_cast_timestamp = GetTickCount64_init h\<rparr>
      | Some s \<Rightarrow> s)"

text \<open>
  Lines 151 to 195 of \<open>tick\<close>, where \<open>self\<close> and \<open>char_info\<close> are known to be non-null.
  \<open>current_index >= songs.size()\<close> compares an \<open>int\<close> with an unsigned size, so a
  negative index counts as large; the test \<open>current_index < 0\<close> beside it gives the same
  answer, and the disjunction is the one written here.
\<close>

definition tick_run ::
  "host \<Rightarrow> Entity \<Rightarrow> EQCHARINFO \<Rightarrow> tick_statics option \<Rightarrow> Melody
     \<Rightarrow> Melody \<times> tick_statics option \<times> host_call list" where
  "tick_run h self char_info statics m =
     (let s0 = init_statics h statics;
          current_timestamp = GetTickCount64 h
      in if Casting h = None \<or> Casting h = Some True
         then (let s1 = s0\<lparr>casting_visible_timestamp := current_timestamp\<rparr>
               in if casting_visible_timestamp s1 - start_of_cast_timestamp s1 > 1000
                  then (m\<lparr>retry_count := 0\<rparr>, Some s1, [])
                  else (m, Some s1, []))
         else if current_timestamp - casting_visible_timestamp s0 < 150
         then (m, Some s0, [])
         else if get_eq h = None \<or> get_eq h = Some False \<or> StandingState self \<noteq> Stand
         then (m, Some s0, [])
         else (let aborted =
                     (if (case ActorInfo self of
                            None \<Rightarrow> False
                          | Some actor \<Rightarrow> CastingSpellGemNumber actor = 255)
                      then stop_current_cast h m else []);
                   m1 = m\<lparr>current_index := current_index m + 1\<rparr>;
                   m2 = (if current_index m1 \<ge> int (length (songs m1)) \<or> current_index m1 < 0
                         then m1\<lparr>current_index := 0\<rparr> else m1);
                   current_gem = songs m2 ! nat (current_index m2)
               in if MemorizedSpell char_info current_gem = -1
                  then (m2, Some s0, aborted)
                  else if (case get_spell_mgr h of
                             None \<Rightarrow> False
                           | Some TargetType \<Rightarrow> TargetType (MemorizedSpell char_info current_gem) = 5)
                          \<and> \<not> get_target h
                  then (m2\<lparr>retry_count := retry_count m2 + 1\<rparr>, Some s0,
                        aborted @ [print_chat USERCOLOR_SPELL_FAILURE
                                     ''You must first select a target for spell %i'' [current_gem + 1]])
                  else (m2, Some (s0\<lparr>start_of_cast_timestamp := current_timestamp\<rparr>),
                        aborted @ [cast current_gem (MemorizedSpell char_info current_gem) 0 0])))"

text \<open>
  \<open>ended\<close> is the branch \<open>end(); return;\<close>.  Every disjunct of the termination test
  leads to it, so the test is split here along the two pointers it dereferences.
\<close>

definition ended :: "tick_statics option \<Rightarrow> Melody \<Rightarrow> Melody \<times> tick_statics option \<times> host_call list" where
  "ended statics m = (fst (end_melody m), statics, snd (end_melody m))"

definition tick ::
  "host \<Rightarrow> tick_statics option \<Rightarrow> Melody \<Rightarrow> Melody \<times> tick_statics option \<times> host_call list" where
  "tick h statics m =
     (if songs m = [] then (m, statics, [])
      else (case get_self h of
        None \<Rightarrow> ended statics m
      | Some self \<Rightarrow>
          (case get_char_info h of
             None \<Rightarrow> ended statics m
           | Some char_info \<Rightarrow>
               (if \<not> is_in_game h \<or> StandingState self = Sit \<or> StunnedState char_info \<noteq> 0
                   \<or> retry_count m > RETRY_COUNT_END_LIMIT
                then ended statics m
                else tick_run h self char_info statics m))))"

subsection \<open>The \<open>/melody\<close> command\<close>

text \<open>
  The lambda registered for \<open>/melody\<close> in the constructor.  \<open>args[0]\<close> is the command
  itself.  \<open>Zeal::String::tryParse\<close> is not among the sources; it is the parameter
  \<open>tryParse\<close>, \<open>None\<close> where it returns false.  \<open>parse_songs\<close> is the loop over
  \<open>args[1..]\<close>, \<open>None\<close> where it leaves the command at a parsing error.
\<close>

fun parse_songs :: "(string \<Rightarrow> int option) \<Rightarrow> string list \<Rightarrow> int list option" where
  "parse_songs tryParse [] = Some []"
| "parse_songs tryParse (arg # rest) =
     (case tryParse arg of
        None \<Rightarrow> None
      | Some current_gem \<Rightarrow> map_option ((#) (current_gem - 1)) (parse_songs tryParse rest))"

definition melody_command ::
  "host \<Rightarrow> (string \<Rightarrow> int option) \<Rightarrow> string list \<Rightarrow> Melody \<Rightarrow> bool \<times> Melody \<times> host_call list" where
  "melody_command h tryParse args m =
     (let m0 = fst (end_melody m); out0 = snd (end_melody m)
      in if (case get_char_info h of None \<Rightarrow> True | Some char_info \<Rightarrow> Class char_info \<noteq> ClassTypes_Bard h)
         then (True, m0, out0 @ [print_chat USERCOLOR_SPELL_FAILURE ''Only bards can keep a melody.'' []])
         else if length args > 10
         then (True, m0,
               out0 @ [print_chat USERCOLOR_SPELL_FAILURE ''A melody can only consist of up to 5 songs.'' []])
         else (case parse_songs tryParse (drop 1 args) of
                 None \<Rightarrow>
                   (True, m0,
                    out0 @ [print_chat USERCOLOR_SPELL_FAILURE
                              ''Melody parsing error: Usage example: /melody 1 2 3 4'' []])
               | Some new_songs \<Rightarrow>
                   (True, fst (snd (start h new_songs m0)), out0 @ snd (snd (start h new_songs m0)))))"

subsection \<open>Sequences of calls\<close>

text \<open>
  The client drives the sequencer through two callbacks: the generic callback runs
  \<open>tick\<close>, and the hook on \<open>StopCast\<close> runs \<open>handle_stop_cast_callback\<close> with the reason.
  An \<open>event\<close> is one such call, with the client's state at that moment; \<open>run\<close> performs
  a list of them in order on the members and the statics.
\<close>

datatype event = Tick host | StopCast "8 word"

fun step :: "event \<Rightarrow> Melody \<times> tick_statics option \<Rightarrow> Melody \<times> tick_statics option" where
  "step (Tick h) (m, statics) = (fst (tick h statics m), fst (snd (tick h statics m)))"
| "step (StopCast reason) (m, statics) = (fst (handle_stop_cast_callback reason m), statics)"

fun run :: "event list \<Rightarrow> Melody \<times> tick_statics option \<Rightarrow> Melody \<times> tick_statics option" where
  "run [] s = s"
| "run (e # es) s = run es (step e s)"

subsection \<open>Paths through \<open>tick\<close> and predicates on the state\<close>

text \<open>
  The condition of the \<open>if\<close> at lines 143 to 145 of \<open>tick\<close>, with \<open>||\<close> evaluated
  from the left so that no null pointer is dereferenced.
\<close>

definition hard_termination :: "host \<Rightarrow> Melody \<Rightarrow> bool" where
  "hard_termination h m =
     (\<not> is_in_game h \<or>
      (case get_self h of
         None \<Rightarrow> True
       | Some self \<Rightarrow>
           (case get_char_info h of
              None \<Rightarrow> True
            | Some char_info \<Rightarrow>
                StandingState self = Sit \<or> StunnedState char_info \<noteq> 0
                \<or> retry_count m > RETRY_COUNT_END_LIMIT)))"

text \<open>
  The condition under which \<open>tick\<close> reaches \<open>current_index++\<close> at line 176: a run is
  active, no termination check fires, the casting window exists and is hidden, at least
  150 ms have passed since it was last seen, and the client is free and standing.
\<close>

definition advancing_tick :: "host \<Rightarrow> tick_statics option \<Rightarrow> Melody \<Rightarrow> bool" where
  "advancing_tick h statics m =
     (songs m \<noteq> [] \<and> \<not> hard_termination h m \<and> Casting h = Some False
      \<and> \<not> GetTickCount64 h - casting_visible_timestamp (init_statics h statics) < 150
      \<and> get_eq h = Some True
      \<and> (case get_self h of None \<Rightarrow> False | Some self \<Rightarrow> StandingState self = Stand))"

text \<open>
  The condition under which \<open>tick\<close> leaves through the \<open>return\<close> at line 191: it has
  advanced, the gem at the new index holds a spell, the spell manager exists and gives
  that spell the target type 5, and no target is selected.
\<close>

definition targeting_failure :: "host \<Rightarrow> tick_statics option \<Rightarrow> Melody \<Rightarrow> bool" where
  "targeting_failure h statics m =
     (advancing_tick h statics m \<and>
      (case get_char_info h of
         None \<Rightarrow> False
       | Some char_info \<Rightarrow>
           (let current_gem =
                  songs m ! nat (if current_index m + 1 \<ge> int (length (songs m)) \<or> current_index m + 1 < 0
                                 then 0 else current_index m + 1)
            in MemorizedSpell char_info current_gem \<noteq> -1
               \<and> (case get_spell_mgr h of
                      None \<Rightarrow> False
                    | Some TargetType \<Rightarrow> TargetType (MemorizedSpell char_info current_gem) = 5)
               \<and> \<not> get_target h)))"

definition in_range :: "Melody \<Rightarrow> bool" where
  "in_range m = (0 \<le> current_index m \<and> current_index m < int (length (songs m)))"

text \<open>A command that performs or aborts a cast, as opposed to a chat line.\<close>

fun performs_action :: "host_call \<Rightarrow> bool" where
  "performs_action (print_chat c f args) = False"
| "performs_action (StopCast_original u reason spell_id) = True"
| "performs_action (cast a b c d) = True"

subsection \<open>A concrete client\<close>

text \<open>
  A bard who is in the game, standing, not stunned, not casting, with gem \<open>i\<close> holding
  spell \<open>700 + i\<close> for each of the 8 gems and no spell manager answer needed; the clock
  reads 5000 ms.  It is the input of the concrete evaluations below.
\<close>

definition standing_bard :: host where
  "standing_bard =
     \<lparr>is_in_game = True,
      get_char_info = Some \<lparr>StunnedState = 0, MemorizedSpell = (\<lambda>i. 700 + i), Class = 8\<rparr>,
      get_self = Some \<lparr>StandingState = Stand, ActorInfo = None\<rparr>,
      Casting = Some False,
      get_eq = Some True,
      get_spell_mgr = None,
      get_target = False,
      GetTickCount64_init = 0,
      GetTickCount64 = 5000,
      EQ_NUM_SPELL_GEMS = 8,
      ClassTypes_Bard = 8\<rparr>"

text \<open>The same bard when every spell needs a single target and none is selected.\<close>

definition untargeted_bard :: host where
  "untargeted_bard = standing_bard\<lparr>get_spell_mgr := Some (\<lambda>spell_id. 5)\<rparr>"

text \<open>The sequencer before any run.\<close>

definition idle :: Melody where
  "idle = \<lparr>songs = [], current_index = -1, retry_count = 0\<rparr>"

section \<open>Properties\<close>

subsection \<open>Auxiliary facts\<close>

text \<open>Truncating and flooring remainder vanish together.\<close>

lemma smod_8_eq_0_iff: "((x::int) smod 8 = 0) = (x mod 8 = 0)"
  by (auto simp: signed_modulo_int_def sgn_if zmod_zminus1_eq_if)

lemma check_gems_None:
  "(check_gems n c gs = None) = (\<forall>g\<in>set gs. 0 \<le> g \<and> g < n \<and> MemorizedSpell c g \<noteq> -1)"
  by (induction gs) auto

text \<open>The three ways through \<open>tick\<close>: idle, terminated, or the body after the checks.\<close>

lemma tick_idle: "songs m = [] \<Longrightarrow> tick h statics m = (m, statics, [])"
  by (simp add: tick_def)

lemma tick_ended:
  "songs m \<noteq> [] \<Longrightarrow> hard_termination h m \<Longrightarrow> tick h statics m = ended statics m"
  by (auto simp: tick_def hard_termination_def split: option.splits)

lemma tick_tick_run:
  assumes "songs m \<noteq> []" "\<not> hard_termination h m"
  obtains self char_info where "get_self h = Some self" "get_char_info h = Some char_info"
    "tick h statics m = tick_run h self char_info statics m"
  using assms by (auto simp: tick_def hard_termination_def split: option.splits)

lemma songs_tick_run: "songs (fst (tick_run h self char_info statics m)) = songs m"
  by (simp add: tick_run_def Let_def)

text \<open>Every path of the body leaves one of four states.\<close>

lemma tick_run_results:
  "fst (tick_run h self char_info statics m) \<in>
     {m, m\<lparr>retry_count := 0\<rparr>,
      m\<lparr>current_index := (if current_index m + 1 \<ge> int (length (songs m)) \<or> current_index m + 1 < 0
                           then 0 else current_index m + 1)\<rparr>,
      m\<lparr>current_index := (if current_index m + 1 \<ge> int (length (songs m)) \<or> current_index m + 1 < 0
                           then 0 else current_index m + 1),
        retry_count := retry_count m + 1\<rparr>}"
  by (simp add: tick_run_def Let_def)

lemma tick_run_index:
  "current_index (fst (tick_run h self char_info statics m)) = current_index m
   \<or> current_index (fst (tick_run h self char_info statics m)) =
     (if current_index m + 1 \<ge> int (length (songs m)) \<or> current_index m + 1 < 0 then 0
      else current_index m + 1)"
  by (simp add: tick_run_def Let_def)

lemma tick_run_visible:
  assumes "Casting h = None \<or> Casting h = Some True"
  shows "tick_run h self char_info statics m =
     ((if 1000 < GetTickCount64 h - start_of_cast_timestamp (init_statics h statics)
       then m\<lparr>retry_count := 0\<rparr> else m),
      Some ((init_statics h statics)\<lparr>casting_visible_timestamp := GetTickCount64 h\<rparr>), [])"
  using assms by (auto simp: tick_run_def Let_def)

lemma tick_run_advance:
  assumes "Casting h = Some False"
    "\<not> GetTickCount64 h - casting_visible_timestamp (init_statics h statics) < 150"
    "get_eq h = Some True" "StandingState self = Stand"
  shows "current_index (fst (tick_run h self char_info statics m)) =
     (if current_index m + 1 \<ge> int (length (songs m)) \<or> current_index m + 1 < 0 then 0
      else current_index m + 1)"
  using assms by (simp add: tick_run_def Let_def)

lemma tick_advance:
  assumes "advancing_tick h statics m"
  shows "current_index (fst (tick h statics m)) =
     (if current_index m + 1 \<ge> int (length (songs m)) \<or> current_index m + 1 < 0 then 0
      else current_index m + 1)"
proof -
  from assms have ne: "songs m \<noteq> []" and nh: "\<not> hard_termination h m"
    by (simp_all add: advancing_tick_def)
  from ne nh obtain self char_info where
    s: "get_self h = Some self" and "get_char_info h = Some char_info"
    and t: "tick h statics m = tick_run h self char_info statics m"
    by (rule tick_tick_run)
  from assms s have "Casting h = Some False"
    "\<not> GetTickCount64 h - casting_visible_timestamp (init_statics h statics) < 150"
    "get_eq h = Some True" "StandingState self = Stand"
    by (simp_all add: advancing_tick_def)
  then show ?thesis unfolding t by (rule tick_run_advance)
qed

text \<open>
  The index read by \<open>songs[current_index]\<close> at line 180 is inside the list: \<open>tick\<close> has
  returned at line 137 when the list is empty.
\<close>

lemma tick_advance_in_range:
  assumes "advancing_tick h statics m"
  shows "in_range (fst (tick h statics m))"
proof -
  from assms have ne: "songs m \<noteq> []" and nh: "\<not> hard_termination h m"
    by (simp_all add: advancing_tick_def)
  from ne nh obtain self char_info where
    t: "tick h statics m = tick_run h self char_info statics m"
    by (rule tick_tick_run)
  have "songs (fst (tick h statics m)) = songs m"
    by (simp add: t songs_tick_run)
  with ne tick_advance [OF assms] show ?thesis
    by (auto simp: in_range_def)
qed

text \<open>The callback on a retryable reason, for an index that is not negative.\<close>

lemma stop_cast_retryable:
  assumes "songs m \<noteq> []" "0 \<le> current_index m"
  shows "retry_count (fst (handle_stop_cast_callback 3 m)) = retry_count m + 1"
    and "songs (fst (handle_stop_cast_callback 3 m)) = songs m"
    and "current_index (fst (handle_stop_cast_callback 3 m)) =
        (if (retry_count m + 1) mod 8 \<noteq> 0
         then (if current_index m - 1 < 0 then int (length (songs m)) - 1 else current_index m - 1)
         else current_index m)"
  using assms
  by (simp_all add: handle_stop_cast_callback_def Let_def RETRY_COUNT_REWIND_LIMIT_def
      smod_8_eq_0_iff)

text \<open>Each call keeps an active run's index inside the list.\<close>

lemma tick_preserves:
  assumes "songs m = [] \<or> in_range m"
  shows "songs (fst (tick h statics m)) = [] \<or> in_range (fst (tick h statics m))"
proof (cases "songs m = []")
  case True
  then show ?thesis by (simp add: tick_idle)
next
  case ne: False
  show ?thesis
  proof (cases "hard_termination h m")
    case True
    with ne show ?thesis by (simp add: tick_ended ended_def end_melody_def)
  next
    case False
    with ne obtain self char_info where
      t: "tick h statics m = tick_run h self char_info statics m"
      by (rule tick_tick_run)
    from assms ne have "in_range m" by simp
    with ne tick_run_index [of h self char_info statics m]
    have "in_range (fst (tick_run h self char_info statics m))"
      by (auto simp: in_range_def songs_tick_run split: if_splits)
    then show ?thesis by (simp add: t)
  qed
qed

lemma stop_cast_preserves:
  assumes "songs m = [] \<or> in_range m"
  shows "songs (fst (handle_stop_cast_callback reason m)) = []
     \<or> in_range (fst (handle_stop_cast_callback reason m))"
  using assms
  by (auto simp: handle_stop_cast_callback_def end_melody_def in_range_def Let_def)

lemma step_preserves:
  assumes "songs (fst s) = [] \<or> in_range (fst s)"
  shows "songs (fst (step e s)) = [] \<or> in_range (fst (step e s))"
proof (cases s)
  case (Pair m statics)
  with assms show ?thesis
    by (cases e) (simp_all add: tick_preserves stop_cast_preserves)
qed

lemma run_preserves:
  "songs (fst s) = [] \<or> in_range (fst s) \<Longrightarrow>
   songs (fst (run es s)) = [] \<or> in_range (fst (run es s))"
proof (induction es arbitrary: s)
  case Nil
  then show ?case by simp
next
  case (Cons e es)
  from Cons.prems have "songs (fst (step e s)) = [] \<or> in_range (fst (step e s))"
    by (rule step_preserves)
  then show ?case by (simp add: Cons.IH)
qed

subsection \<open>\<open>start\<close> and the limit of five songs\<close>

text \<open>
  C1.  The claim: \<open>start\<close> rejects every requested sequence of more than 5 entries and
  leaves the state as it was.  \<open>start\<close> itself never looks at the length of
  \<open>new_songs\<close>, and the only length test of the \<open>/melody\<close> command is
  \<open>args.size() > 10\<close>, which lets up to nine songs through although its message, and
  the requirements at the head of the file, speak of five.  For a standing bard with
  the gem memorised, \<open>start\<close> accepts six entries, called directly or through the
  command \<open>/melody 2 2 2 2 2 2\<close>.
\<close>

theorem start_accepts_six_songs:
  "start standing_bard [1, 1, 1, 1, 1, 1] idle =
     (True, \<lparr>songs = [1, 1, 1, 1, 1, 1], current_index = -1, retry_count = 0\<rparr>,
      [print_chat USERCOLOR_SPELLS ''You begin playing a melody.'' []])
   \<and> melody_command standing_bard (\<lambda>s. if s = ''2'' then Some 2 else None)
       [''/melody'', ''2'', ''2'', ''2'', ''2'', ''2'', ''2''] idle =
     (True, \<lparr>songs = [1, 1, 1, 1, 1, 1], current_index = -1, retry_count = 0\<rparr>,
      [print_chat USERCOLOR_SPELLS ''You begin playing a melody.'' []])"
  by (simp add: melody_command_def end_melody_def start_def standing_bard_def idle_def)

text \<open>The command does reject ten songs: the test fires from eleven arguments on.\<close>

lemma melody_command_rejects_ten_songs:
  "melody_command standing_bard (\<lambda>s. if s = ''2'' then Some 2 else None)
       [''/melody'', ''2'', ''2'', ''2'', ''2'', ''2'', ''2'', ''2'', ''2'', ''2'', ''2''] idle =
     (True, idle,
      [print_chat USERCOLOR_SPELL_FAILURE ''A melody can only consist of up to 5 songs.'' []])"
  by (simp add: melody_command_def end_melody_def standing_bard_def idle_def)

subsection \<open>The end limit of the retry counter\<close>

text \<open>
  C2.  The claim: starting from \<open>retry_count = 0\<close>, after 15 consecutive retryable
  interruptions the next \<open>tick\<close> ends the run.  The test in \<open>tick\<close> is
  \<open>retry_count > RETRY_COUNT_END_LIMIT\<close>, so 15 does not end it.  A one-song melody is
  started; fifteen times a tick casts the song and the cast is stopped with reason 3;
  after the following tick the run is still active with \<open>retry_count = 15\<close>.  The same
  holds for fifteen notifications in a row on a running sequencer.
\<close>

theorem fifteen_interruptions_do_not_end:
  "run (concat (replicate 15 [Tick standing_bard, StopCast 3]) @ [Tick standing_bard])
       (fst (snd (start standing_bard [0] idle)), None)
   = (\<lparr>songs = [0], current_index = 0, retry_count = 15\<rparr>,
      Some \<lparr>casting_visible_timestamp = 0, start_of_cast_timestamp = 5000\<rparr>)
   \<and> run (replicate 15 (StopCast 3) @ [Tick standing_bard])
       (\<lparr>songs = [0], current_index = 0, retry_count = 0\<rparr>, None)
   = (\<lparr>songs = [0], current_index = 0, retry_count = 15\<rparr>,
      Some \<lparr>casting_visible_timestamp = 0, start_of_cast_timestamp = 5000\<rparr>)"
  by code_simp

text \<open>That sixteenth tick casts the song once more; the run ends one interruption later.\<close>

lemma tick_at_fifteen_casts:
  "tick standing_bard (Some \<lparr>casting_visible_timestamp = 0, start_of_cast_timestamp = 5000\<rparr>)
      \<lparr>songs = [0], current_index = 0, retry_count = 15\<rparr>
   = (\<lparr>songs = [0], current_index = 0, retry_count = 15\<rparr>,
      Some \<lparr>casting_visible_timestamp = 0, start_of_cast_timestamp = 5000\<rparr>, [cast 0 700 0 0])"
  by code_simp

lemma sixteen_interruptions_end:
  "run (concat (replicate 16 [Tick standing_bard, StopCast 3]) @ [Tick standing_bard])
       (fst (snd (start standing_bard [0] idle)), None)
   = (idle, Some \<lparr>casting_visible_timestamp = 0, start_of_cast_timestamp = 5000\<rparr>)"
  by code_simp

subsection \<open>The rewind policy of the stop notification\<close>

text \<open>
  C3.  The claim: with \<open>current_index\<close> inside the list, a retryable notification
  increments \<open>retry_count\<close>, rewinds exactly when the new count is not a multiple of 8
  and leaves the index alone when it is; hence the same action is attempted again after
  interruptions 1 to 7 and the current action changes on the 8th.  All of it holds but
  the last clause for a list of one song: the advance then wraps back onto the same
  index.  As amended: after a rewind the next advancing tick lands on the same index;
  after a skipped rewind it lands on the next index in cyclic order, which differs from
  the current one exactly when the list has more than one entry.
\<close>

theorem stop_cast_rewind_policy:
  assumes "songs m \<noteq> []" "0 \<le> current_index m" "current_index m < int (length (songs m))"
  shows "retry_count (fst (handle_stop_cast_callback 3 m)) = retry_count m + 1
    \<and> songs (fst (handle_stop_cast_callback 3 m)) = songs m
    \<and> current_index (fst (handle_stop_cast_callback 3 m)) =
        (if (retry_count m + 1) mod 8 \<noteq> 0
         then (if current_index m - 1 < 0 then int (length (songs m)) - 1 else current_index m - 1)
         else current_index m)
    \<and> (advancing_tick h statics (fst (handle_stop_cast_callback 3 m)) \<longrightarrow>
         current_index (fst (tick h statics (fst (handle_stop_cast_callback 3 m)))) =
           (if (retry_count m + 1) mod 8 \<noteq> 0 then current_index m
            else if current_index m + 1 \<ge> int (length (songs m)) then 0
            else current_index m + 1))
    \<and> (advancing_tick h statics (fst (handle_stop_cast_callback 3 m))
          \<and> (retry_count m + 1) mod 8 = 0 \<longrightarrow>
         (current_index (fst (tick h statics (fst (handle_stop_cast_callback 3 m)))) \<noteq> current_index m)
           = (1 < length (songs m)))"
proof -
  let ?m' = "fst (handle_stop_cast_callback 3 m)"
  note rc = stop_cast_retryable(1) [OF assms(1,2)]
  note sg = stop_cast_retryable(2) [OF assms(1,2)]
  note ci = stop_cast_retryable(3) [OF assms(1,2)]
  have nxt: "current_index (fst (tick h statics ?m')) =
           (if (retry_count m + 1) mod 8 \<noteq> 0 then current_index m
            else if current_index m + 1 \<ge> int (length (songs m)) then 0
            else current_index m + 1)" if "advancing_tick h statics ?m'"
    using tick_advance [OF that] assms by (auto simp: sg ci)
  have chg: "(current_index (fst (tick h statics ?m')) \<noteq> current_index m) = (1 < length (songs m))"
    if "advancing_tick h statics ?m'" "(retry_count m + 1) mod 8 = 0"
    using nxt [OF that(1)] that(2) assms by auto
  show ?thesis
  proof (intro conjI impI)
    show "retry_count ?m' = retry_count m + 1" by (rule rc)
    show "songs ?m' = songs m" by (rule sg)
    show "current_index ?m' =
        (if (retry_count m + 1) mod 8 \<noteq> 0
         then (if current_index m - 1 < 0 then int (length (songs m)) - 1 else current_index m - 1)
         else current_index m)" by (rule ci)
  next
    assume "advancing_tick h statics ?m'"
    then show "current_index (fst (tick h statics ?m')) =
           (if (retry_count m + 1) mod 8 \<noteq> 0 then current_index m
            else if current_index m + 1 \<ge> int (length (songs m)) then 0
            else current_index m + 1)" by (rule nxt)
  next
    assume "advancing_tick h statics ?m' \<and> (retry_count m + 1) mod 8 = 0"
    then have a: "advancing_tick h statics ?m'" and b: "(retry_count m + 1) mod 8 = 0"
      by simp_all
    show "(current_index (fst (tick h statics ?m')) \<noteq> current_index m) = (1 < length (songs m))"
      by (rule chg [OF a b])
  qed
qed

text \<open>
  Two songs, the second one current.  The 8th interruption leaves the index at 1 and
  the next tick moves to 0; the 3rd interruption rewinds to 0 and the next tick is back
  at 1.
\<close>

theorem stop_cast_rewind_policy_witness:
  "songs \<lparr>songs = [0, 1], current_index = 1, retry_count = 7\<rparr> \<noteq> []
   \<and> advancing_tick standing_bard None
        (fst (handle_stop_cast_callback 3 \<lparr>songs = [0, 1], current_index = 1, retry_count = 7\<rparr>))
   \<and> retry_count (fst (handle_stop_cast_callback 3 \<lparr>songs = [0, 1], current_index = 1, retry_count = 7\<rparr>)) = 8
   \<and> current_index (fst (handle_stop_cast_callback 3 \<lparr>songs = [0, 1], current_index = 1, retry_count = 7\<rparr>)) = 1
   \<and> current_index (fst (tick standing_bard None
        (fst (handle_stop_cast_callback 3 \<lparr>songs = [0, 1], current_index = 1, retry_count = 7\<rparr>)))) = 0
   \<and> retry_count (fst (handle_stop_cast_callback 3 \<lparr>songs = [0, 1], current_index = 1, retry_count = 2\<rparr>)) = 3
   \<and> current_index (fst (handle_stop_cast_callback 3 \<lparr>songs = [0, 1], current_index = 1, retry_count = 2\<rparr>)) = 0
   \<and> current_index (fst (tick standing_bard None
        (fst (handle_stop_cast_callback 3 \<lparr>songs = [0, 1], current_index = 1, retry_count = 2\<rparr>)))) = 1"
proof -
  let ?m = "\<lparr>songs = [0, 1], current_index = 1, retry_count = 7\<rparr>"
  let ?n = "\<lparr>songs = [0, 1], current_index = 1, retry_count = 2\<rparr>"
  have adv: "advancing_tick standing_bard None (fst (handle_stop_cast_callback 3 ?m))"
    by code_simp
  have adv': "advancing_tick standing_bard None (fst (handle_stop_cast_callback 3 ?n))"
    by code_simp
  show ?thesis
    using stop_cast_rewind_policy [of ?m standing_bard None]
      stop_cast_rewind_policy [of ?n standing_bard None] adv adv'
    by simp
qed

text \<open>
  The claim as stated fails for one song.  The melody \<open>[0]\<close> is started and each cast
  is stopped with reason 3.  After the 7th interruption the next tick leaves the index
  at 0, and after the 8th interruption the next tick leaves it at 0 again: the current
  action has not changed.
\<close>

theorem single_song_eighth_interruption_keeps_action:
  "fst (run (concat (replicate 7 [Tick standing_bard, StopCast 3]) @ [Tick standing_bard])
          (fst (snd (start standing_bard [0] idle)), None))
     = \<lparr>songs = [0], current_index = 0, retry_count = 7\<rparr>
   \<and> fst (run (concat (replicate 8 [Tick standing_bard, StopCast 3]) @ [Tick standing_bard])
          (fst (snd (start standing_bard [0] idle)), None))
     = \<lparr>songs = [0], current_index = 0, retry_count = 8\<rparr>
   \<and> snd (snd (tick standing_bard None
        (fst (handle_stop_cast_callback 3 \<lparr>songs = [0], current_index = 0, retry_count = 7\<rparr>))))
     = [cast 0 700 0 0]"
  by code_simp

subsection \<open>The retry counter before the first advance\<close>

text \<open>
  C4.  The claim: on every active sequencer a retryable stop notification increments
  \<open>retry_count\<close> by exactly 1, also while \<open>current_index\<close> is still \<open>-1\<close>.  The
  increment stands behind the guard \<open>current_index >= 0\<close>: as amended, the count grows
  by exactly 1 when \<open>current_index\<close> is not negative, and a notification that arrives
  while it is negative changes nothing at all.
\<close>

theorem stop_cast_retry_count:
  assumes "songs m \<noteq> []"
  shows "retry_count (fst (handle_stop_cast_callback 3 m)) =
           (if 0 \<le> current_index m then retry_count m + 1 else retry_count m)
     \<and> (current_index m < 0 \<longrightarrow> handle_stop_cast_callback 3 m = (m, []))"
  using assms by (simp add: handle_stop_cast_callback_def Let_def)

theorem stop_cast_retry_count_witness:
  "songs \<lparr>songs = [0], current_index = 0, retry_count = 4\<rparr> \<noteq> []
   \<and> retry_count (fst (handle_stop_cast_callback 3 \<lparr>songs = [0], current_index = 0, retry_count = 4\<rparr>)) = 5
   \<and> handle_stop_cast_callback 3 \<lparr>songs = [0], current_index = - 1, retry_count = 0\<rparr>
       = (\<lparr>songs = [0], current_index = - 1, retry_count = 0\<rparr>, [])"
  using stop_cast_retry_count [of "\<lparr>songs = [0], current_index = 0, retry_count = 4\<rparr>"]
    stop_cast_retry_count [of "\<lparr>songs = [0], current_index = - 1, retry_count = 0\<rparr>"]
  by simp

text \<open>
  The state right after \<open>start([0])\<close>: the run is active, and the notification leaves
  \<open>retry_count\<close> at 0.
\<close>

theorem stop_cast_before_first_tick_keeps_count:
  "songs \<lparr>songs = [0], current_index = - 1, retry_count = 0\<rparr> \<noteq> []
   \<and> retry_count (fst (handle_stop_cast_callback 3 \<lparr>songs = [0], current_index = - 1, retry_count = 0\<rparr>))
     \<noteq> retry_count \<lparr>songs = [0], current_index = - 1, retry_count = 0\<rparr> + 1"
  by (simp add: handle_stop_cast_callback_def)

subsection \<open>The index stays inside the list\<close>

text \<open>
  C5.  Once a tick of a run has advanced, \<open>current_index\<close> is in
  \<open>[0, len(songs))\<close> after every further sequence of ticks and stop notifications, for
  as long as the run is active.  The advance wraps to 0 when the incremented index
  reaches the length or is negative; the rewind wraps to the last index when the
  decremented index is negative, and keeps an index that was inside the list inside.
\<close>

theorem current_index_stays_in_range:
  assumes "advancing_tick h statics m"
  shows "(songs (fst (run es (step (Tick h) (m, statics)))) \<noteq> [] \<longrightarrow>
           0 \<le> current_index (fst (run es (step (Tick h) (m, statics))))
           \<and> current_index (fst (run es (step (Tick h) (m, statics))))
               < int (length (songs (fst (run es (step (Tick h) (m, statics)))))))
       \<and> current_index (fst (tick h statics m)) =
           (if current_index m + 1 \<ge> int (length (songs m)) \<or> current_index m + 1 < 0 then 0
            else current_index m + 1)
       \<and> (in_range n \<longrightarrow>
            in_range (fst (handle_stop_cast_callback 3 n))
            \<and> current_index (fst (handle_stop_cast_callback 3 n)) =
               (if (retry_count n + 1) mod 8 \<noteq> 0
                then (if current_index n - 1 < 0 then int (length (songs n)) - 1
                      else current_index n - 1)
                else current_index n))"
proof -
  have "in_range (fst (step (Tick h) (m, statics)))"
    using tick_advance_in_range [OF assms] by simp
  then have "songs (fst (run es (step (Tick h) (m, statics)))) = []
     \<or> in_range (fst (run es (step (Tick h) (m, statics))))"
    by (intro run_preserves) simp
  then have inv: "songs (fst (run es (step (Tick h) (m, statics)))) \<noteq> [] \<longrightarrow>
           0 \<le> current_index (fst (run es (step (Tick h) (m, statics))))
           \<and> current_index (fst (run es (step (Tick h) (m, statics))))
               < int (length (songs (fst (run es (step (Tick h) (m, statics))))))"
    by (auto simp: in_range_def)
  have rew: "in_range (fst (handle_stop_cast_callback 3 n))
            \<and> current_index (fst (handle_stop_cast_callback 3 n)) =
               (if (retry_count n + 1) mod 8 \<noteq> 0
                then (if current_index n - 1 < 0 then int (length (songs n)) - 1
                      else current_index n - 1)
                else current_index n)" if "in_range n"
  proof -
    from that have ne: "songs n \<noteq> []" and nn: "0 \<le> current_index n"
      by (auto simp: in_range_def)
    from that stop_cast_preserves [of n 3] stop_cast_retryable(2) [OF ne nn] ne
    have "in_range (fst (handle_stop_cast_callback 3 n))"
      by auto
    with stop_cast_retryable(3) [OF ne nn] show ?thesis by simp
  qed
  from inv tick_advance [OF assms] rew show ?thesis by blast
qed

text \<open>
  Two songs: the first tick after \<open>start\<close> advances to 0, an interruption rewinds and
  wraps to 1, the next tick wraps to 0, and a second interruption wraps to 1 again.
\<close>

theorem current_index_stays_in_range_witness:
  "advancing_tick standing_bard None \<lparr>songs = [0, 1], current_index = - 1, retry_count = 0\<rparr>
   \<and> songs (fst (run [StopCast 3, Tick standing_bard, StopCast 3]
         (step (Tick standing_bard) (\<lparr>songs = [0, 1], current_index = - 1, retry_count = 0\<rparr>, None)))) = [0, 1]
   \<and> 0 \<le> current_index (fst (run [StopCast 3, Tick standing_bard, StopCast 3]
         (step (Tick standing_bard) (\<lparr>songs = [0, 1], current_index = - 1, retry_count = 0\<rparr>, None))))
   \<and> current_index (fst (run [StopCast 3, Tick standing_bard, StopCast 3]
         (step (Tick standing_bard) (\<lparr>songs = [0, 1], current_index = - 1, retry_count = 0\<rparr>, None)))) < 2
   \<and> current_index (fst (tick standing_bard None \<lparr>songs = [0, 1], current_index = - 1, retry_count = 0\<rparr>)) = 0
   \<and> in_range \<lparr>songs = [0, 1], current_index = 0, retry_count = 0\<rparr>
   \<and> current_index (fst (handle_stop_cast_callback 3 \<lparr>songs = [0, 1], current_index = 0, retry_count = 0\<rparr>)) = 1"
proof -
  let ?m = "\<lparr>songs = [0, 1], current_index = - 1, retry_count = 0\<rparr>"
  let ?n = "\<lparr>songs = [0, 1], current_index = 0, retry_count = 0\<rparr>"
  let ?es = "[StopCast 3, Tick standing_bard, StopCast 3]"
  have adv: "advancing_tick standing_bard None ?m"
    by code_simp
  have sg: "songs (fst (run ?es (step (Tick standing_bard) (?m, None)))) = [0, 1]"
    by code_simp
  have inr: "in_range ?n"
    by (simp add: in_range_def)
  show ?thesis
    using current_index_stays_in_range [OF adv, of ?es ?n] adv sg inr by simp
qed

subsection \<open>When the stop notification ends the run\<close>

text \<open>
  C6.  The stop notification calls \<open>end\<close>, leaving \<open>songs\<close> empty, if and only if the
  sequencer is idle or the reason is not 3; with reason 3 on an active sequencer it
  leaves \<open>songs\<close> as it is and prints nothing, whatever the value of \<open>retry_count\<close>.
\<close>

theorem stop_cast_ends_iff:
  "(reason \<noteq> 3 \<or> songs m = [] \<longrightarrow>
      handle_stop_cast_callback reason m = end_melody m
      \<and> songs (fst (handle_stop_cast_callback reason m)) = [])
   \<and> (reason = 3 \<and> songs m \<noteq> [] \<longrightarrow>
      songs (fst (handle_stop_cast_callback reason m)) = songs m
      \<and> snd (handle_stop_cast_callback reason m) = [])
   \<and> (songs (fst (handle_stop_cast_callback reason m)) = []) = (songs m = [] \<or> reason \<noteq> 3)"
  by (auto simp: handle_stop_cast_callback_def end_melody_def Let_def)

theorem stop_cast_ends_iff_witness:
  "songs (fst (handle_stop_cast_callback 3 \<lparr>songs = [0], current_index = 0, retry_count = 900\<rparr>)) = [0]
   \<and> songs (fst (handle_stop_cast_callback 0 \<lparr>songs = [0], current_index = 0, retry_count = 2\<rparr>)) = []"
  using stop_cast_ends_iff [of 3 "\<lparr>songs = [0], current_index = 0, retry_count = 900\<rparr>"]
    stop_cast_ends_iff [of 0 "\<lparr>songs = [0], current_index = 0, retry_count = 2\<rparr>"]
  by (simp add: end_melody_def)

subsection \<open>A rejected \<open>start\<close> changes nothing\<close>

text \<open>
  C7.  Whenever a precondition of \<open>start\<close> fails (not in game, character data or own
  entity missing, stunned, not standing, a gem index outside \<open>[0, EQ_NUM_SPELL_GEMS)\<close>,
  or a gem with no memorised spell), \<open>start\<close> returns false and \<open>songs\<close>,
  \<open>current_index\<close> and \<open>retry_count\<close> are what they were.
\<close>

theorem rejected_start_atomic:
  assumes "\<not> is_in_game h \<or> get_char_info h = None \<or> get_self h = None
     \<or> (\<exists>c. get_char_info h = Some c \<and> StunnedState c \<noteq> 0)
     \<or> (\<exists>e. get_self h = Some e \<and> StandingState e \<noteq> Stand)
     \<or> (\<exists>g\<in>set new_songs. g < 0 \<or> EQ_NUM_SPELL_GEMS h \<le> g)
     \<or> (\<exists>c. get_char_info h = Some c \<and> (\<exists>g\<in>set new_songs. MemorizedSpell c g = -1))"
  shows "fst (start h new_songs m) = False \<and> fst (snd (start h new_songs m)) = m"
proof -
  have unchanged: "fst (start h new_songs m) \<or> fst (snd (start h new_songs m)) = m"
    by (simp add: start_def split: option.splits)
  have "\<not> fst (start h new_songs m)"
  proof (cases "get_char_info h")
    case None
    then show ?thesis by (simp add: start_def)
  next
    case (Some c)
    show ?thesis
    proof (cases "get_self h")
      case None
      with Some show ?thesis by (simp add: start_def)
    next
      case (Some e)
      have "check_gems (EQ_NUM_SPELL_GEMS h) c new_songs \<noteq> None"
        if "is_in_game h" "StunnedState c = 0" "StandingState e = Stand"
        using assms that \<open>get_char_info h = Some c\<close> Some
        unfolding check_gems_None by force
      then show ?thesis
        using \<open>get_char_info h = Some c\<close> Some
        by (auto simp: start_def split: option.splits)
    qed
  qed
  with unchanged show ?thesis by simp
qed

text \<open>
  A sitting bard asks for a new melody while one is running, and a standing bard asks
  for gem index 8 of 8 gems: both are refused and the state is the one before.
\<close>

theorem rejected_start_atomic_witness:
  "(\<exists>e. get_self (standing_bard\<lparr>get_self := Some \<lparr>StandingState = Sit, ActorInfo = None\<rparr>\<rparr>) = Some e
        \<and> StandingState e \<noteq> Stand)
   \<and> fst (start (standing_bard\<lparr>get_self := Some \<lparr>StandingState = Sit, ActorInfo = None\<rparr>\<rparr>) [0, 1]
        \<lparr>songs = [3], current_index = 0, retry_count = 2\<rparr>) = False
   \<and> fst (snd (start (standing_bard\<lparr>get_self := Some \<lparr>StandingState = Sit, ActorInfo = None\<rparr>\<rparr>) [0, 1]
        \<lparr>songs = [3], current_index = 0, retry_count = 2\<rparr>)) = \<lparr>songs = [3], current_index = 0, retry_count = 2\<rparr>
   \<and> (\<exists>g\<in>set [0, 8]. g < 0 \<or> EQ_NUM_SPELL_GEMS standing_bard \<le> g)
   \<and> fst (start standing_bard [0, 8] idle) = False
   \<and> fst (snd (start standing_bard [0, 8] idle)) = idle"
proof -
  let ?h = "standing_bard\<lparr>get_self := Some \<lparr>StandingState = Sit, ActorInfo = None\<rparr>\<rparr>"
  have a: "\<exists>e. get_self ?h = Some e \<and> StandingState e \<noteq> Stand"
    by simp
  have b: "\<exists>g\<in>set [0, 8]. g < 0 \<or> EQ_NUM_SPELL_GEMS standing_bard \<le> g"
    by (simp add: standing_bard_def)
  show ?thesis
    using rejected_start_atomic [of ?h "[0, 1]" "\<lparr>songs = [3], current_index = 0, retry_count = 2\<rparr>"]
      rejected_start_atomic [of standing_bard "[0, 8]" idle] a b
    by (simp add: standing_bard_def)
qed

subsection \<open>\<open>end\<close> resets once\<close>

text \<open>
  C8.  On an active run \<open>end\<close> clears \<open>songs\<close>, sets \<open>current_index\<close> to \<open>-1\<close> and
  \<open>retry_count\<close> to 0 and prints the one line that the melody has ended; on an idle
  sequencer it changes nothing and prints nothing.  A second \<open>end\<close> right after the
  first therefore adds neither a change nor a line.
\<close>

theorem end_melody_reset_idempotent:
  "(songs m \<noteq> [] \<longrightarrow>
      songs (fst (end_melody m)) = [] \<and> current_index (fst (end_melody m)) = -1
      \<and> retry_count (fst (end_melody m)) = 0
      \<and> snd (end_melody m) = [print_chat USERCOLOR_SPELL_FAILURE ''Your melody has ended.'' []])
   \<and> (songs m = [] \<longrightarrow> end_melody m = (m, []))
   \<and> end_melody (fst (end_melody m)) = (fst (end_melody m), [])
   \<and> snd (end_melody m) @ snd (end_melody (fst (end_melody m))) = snd (end_melody m)"
  by (simp add: end_melody_def)

theorem end_melody_reset_idempotent_witness:
  "end_melody \<lparr>songs = [0, 1], current_index = 1, retry_count = 3\<rparr> =
     (\<lparr>songs = [], current_index = - 1, retry_count = 0\<rparr>,
      [print_chat USERCOLOR_SPELL_FAILURE ''Your melody has ended.'' []])
   \<and> end_melody idle = (idle, [])"
proof -
  have "songs idle = []" by (simp add: idle_def)
  then show ?thesis
    using end_melody_reset_idempotent [of "\<lparr>songs = [0, 1], current_index = 1, retry_count = 3\<rparr>"]
      end_melody_reset_idempotent [of idle]
    by (simp add: prod_eq_iff)
qed

subsection \<open>Waiting while the casting window is up\<close>

text \<open>
  C9.  While the casting window is visible, or does not exist, \<open>tick\<close> sends no cast
  and no abort and does not advance \<open>current_index\<close> (it keeps it, or resets it to
  \<open>-1\<close> when a termination check ends the run).  Past the termination checks it only
  records the time in \<open>casting_visible_timestamp\<close> and sets \<open>retry_count\<close> to 0 when
  more than 1000 ms lie between \<open>start_of_cast_timestamp\<close> and now.  So on an active
  run, with the clock at or after the start of the cast and more than 1000 ms later,
  \<open>retry_count\<close> is 0 after the tick.
\<close>

theorem tick_waits_while_casting_visible:
  assumes "Casting h = None \<or> Casting h = Some True"
  shows "filter performs_action (snd (snd (tick h statics m))) = []
    \<and> current_index (fst (tick h statics m)) \<in> {current_index m, -1}
    \<and> (songs m \<noteq> [] \<and> \<not> hard_termination h m \<longrightarrow>
         tick h statics m =
           ((if 1000 < GetTickCount64 h - start_of_cast_timestamp (init_statics h statics)
             then m\<lparr>retry_count := 0\<rparr> else m),
            Some ((init_statics h statics)\<lparr>casting_visible_timestamp := GetTickCount64 h\<rparr>), []))
    \<and> (songs m \<noteq> []
        \<and> start_of_cast_timestamp (init_statics h statics) \<le> GetTickCount64 h
        \<and> 1000 < unat (GetTickCount64 h) - unat (start_of_cast_timestamp (init_statics h statics))
        \<longrightarrow> retry_count (fst (tick h statics m)) = 0)"
proof (cases "songs m = []")
  case True
  then show ?thesis by (simp add: tick_idle)
next
  case ne: False
  show ?thesis
  proof (cases "hard_termination h m")
    case True
    with ne show ?thesis by (simp add: tick_ended ended_def end_melody_def)
  next
    case False
    with ne obtain self char_info where
      t: "tick h statics m = tick_run h self char_info statics m"
      by (rule tick_tick_run)
    have w: "1000 < GetTickCount64 h - start_of_cast_timestamp (init_statics h statics)"
      if "start_of_cast_timestamp (init_statics h statics) \<le> GetTickCount64 h"
        "1000 < unat (GetTickCount64 h) - unat (start_of_cast_timestamp (init_statics h statics))"
      using that by (simp add: word_less_nat_alt unat_sub)
    show ?thesis
      unfolding t tick_run_visible [OF assms] using w by auto
  qed
qed

text \<open>
  The window is visible at 7000 ms, the cast began at 5000 ms, three retries are
  counted: the tick resets the count and leaves the index at 1.
\<close>

theorem tick_waits_while_casting_visible_witness:
  "Casting (standing_bard\<lparr>Casting := Some True, GetTickCount64 := 7000\<rparr>) = Some True
   \<and> tick (standing_bard\<lparr>Casting := Some True, GetTickCount64 := 7000\<rparr>)
        (Some \<lparr>casting_visible_timestamp = 6000, start_of_cast_timestamp = 5000\<rparr>)
        \<lparr>songs = [0, 1], current_index = 1, retry_count = 3\<rparr>
      = (\<lparr>songs = [0, 1], current_index = 1, retry_count = 0\<rparr>,
         Some \<lparr>casting_visible_timestamp = 7000, start_of_cast_timestamp = 5000\<rparr>, [])"
proof -
  let ?h = "standing_bard\<lparr>Casting := Some True, GetTickCount64 := 7000\<rparr>"
  let ?s = "Some \<lparr>casting_visible_timestamp = 6000, start_of_cast_timestamp = 5000\<rparr>"
  let ?m = "\<lparr>songs = [0, 1], current_index = 1, retry_count = 3\<rparr>"
  have vis: "Casting ?h = None \<or> Casting ?h = Some True"
    by simp
  have nh: "\<not> hard_termination ?h ?m"
    by (simp add: hard_termination_def standing_bard_def RETRY_COUNT_END_LIMIT_def)
  show ?thesis
    using tick_waits_while_casting_visible [OF vis, of ?s ?m] nh by (simp add: init_statics_def)
qed

subsection \<open>\<open>tick\<close> and the list of songs\<close>

text \<open>The state after a tick that leaves through the missing-target return.\<close>

lemma tick_run_targeting_failure:
  assumes "Casting h = Some False"
    "\<not> GetTickCount64 h - casting_visible_timestamp (init_statics h statics) < 150"
    "get_eq h = Some True" "StandingState self = Stand"
    "MemorizedSpell char_info
       (songs m ! nat (if current_index m + 1 \<ge> int (length (songs m)) \<or> current_index m + 1 < 0
                       then 0 else current_index m + 1)) \<noteq> -1"
    "get_spell_mgr h = Some TargetType"
    "TargetType (MemorizedSpell char_info
       (songs m ! nat (if current_index m + 1 \<ge> int (length (songs m)) \<or> current_index m + 1 < 0
                       then 0 else current_index m + 1))) = 5"
    "\<not> get_target h"
  shows "fst (tick_run h self char_info statics m) =
     m\<lparr>current_index := (if current_index m + 1 \<ge> int (length (songs m)) \<or> current_index m + 1 < 0
                          then 0 else current_index m + 1),
       retry_count := retry_count m + 1\<rparr>"
proof (cases "current_index m + 1 \<ge> int (length (songs m)) \<or> current_index m + 1 < 0")
  case True
  with assms show ?thesis by (auto simp: tick_run_def Let_def)
next
  case False
  with assms show ?thesis by (auto simp: tick_run_def Let_def)
qed

lemma tick_targeting_failure:
  assumes "targeting_failure h statics m"
  shows "fst (tick h statics m) =
     m\<lparr>current_index := (if current_index m + 1 \<ge> int (length (songs m)) \<or> current_index m + 1 < 0
                          then 0 else current_index m + 1),
       retry_count := retry_count m + 1\<rparr>"
proof -
  from assms have adv: "advancing_tick h statics m"
    by (simp add: targeting_failure_def)
  then have ne: "songs m \<noteq> []" and nh: "\<not> hard_termination h m"
    by (simp_all add: advancing_tick_def)
  from ne nh obtain self char_info where
    s: "get_self h = Some self" and c: "get_char_info h = Some char_info"
    and t: "tick h statics m = tick_run h self char_info statics m"
    by (rule tick_tick_run)
  from adv s have p: "Casting h = Some False"
    "\<not> GetTickCount64 h - casting_visible_timestamp (init_statics h statics) < 150"
    "get_eq h = Some True" "StandingState self = Stand"
    by (simp_all add: advancing_tick_def)
  from assms c obtain TargetType where q:
    "MemorizedSpell char_info
       (songs m ! nat (if current_index m + 1 \<ge> int (length (songs m)) \<or> current_index m + 1 < 0
                       then 0 else current_index m + 1)) \<noteq> -1"
    "get_spell_mgr h = Some TargetType"
    "TargetType (MemorizedSpell char_info
       (songs m ! nat (if current_index m + 1 \<ge> int (length (songs m)) \<or> current_index m + 1 < 0
                       then 0 else current_index m + 1))) = 5"
    "\<not> get_target h"
    by (auto simp: targeting_failure_def Let_def split: option.splits)
  show ?thesis unfolding t using p q by (rule tick_run_targeting_failure)
qed

text \<open>
  C10.  The claim: outside the branch that calls \<open>end\<close>, no path through \<open>tick\<close>
  modifies \<open>songs\<close>, and the path of the missing target changes only \<open>retry_count\<close>.
  The frame on \<open>songs\<close> holds; the clause on the missing target does not, since
  \<open>current_index\<close> has been advanced at lines 176 to 178 before that path returns.
  As amended: the body after the termination checks (the wait for the casting window,
  the cooldown, the deferral while busy, the skip of an empty gem, the missing target,
  the cast) ends in one of four states, namely the state before, that state with
  \<open>retry_count\<close> reset, with the index advanced, or with the index advanced and
  \<open>retry_count\<close> incremented, and none of them has another list; so \<open>tick\<close> leaves
  \<open>songs\<close> as it was on an idle sequencer and whenever no termination check fires.
  The path of the missing target ends in the fourth state: it leaves \<open>songs\<close> alone,
  increments \<open>retry_count\<close> by 1 and has advanced \<open>current_index\<close>.
\<close>

theorem tick_frame_songs:
  "fst (tick_run h self char_info statics m) \<in>
     {m, m\<lparr>retry_count := 0\<rparr>,
      m\<lparr>current_index := (if current_index m + 1 \<ge> int (length (songs m)) \<or> current_index m + 1 < 0
                           then 0 else current_index m + 1)\<rparr>,
      m\<lparr>current_index := (if current_index m + 1 \<ge> int (length (songs m)) \<or> current_index m + 1 < 0
                           then 0 else current_index m + 1),
        retry_count := retry_count m + 1\<rparr>}
   \<and> songs (fst (tick_run h self char_info statics m)) = songs m
   \<and> (songs m = [] \<or> \<not> hard_termination h m \<longrightarrow> songs (fst (tick h statics m)) = songs m)
   \<and> (targeting_failure h statics m \<longrightarrow>
        fst (tick h statics m) =
          m\<lparr>current_index := (if current_index m + 1 \<ge> int (length (songs m)) \<or> current_index m + 1 < 0
                               then 0 else current_index m + 1),
            retry_count := retry_count m + 1\<rparr>
        \<and> songs (fst (tick h statics m)) = songs m
        \<and> retry_count (fst (tick h statics m)) = retry_count m + 1
        \<and> current_index (fst (tick h statics m)) =
            (if current_index m + 1 \<ge> int (length (songs m)) \<or> current_index m + 1 < 0
             then 0 else current_index m + 1))"
proof -
  have fr: "songs (fst (tick h statics m)) = songs m" if "songs m = [] \<or> \<not> hard_termination h m"
  proof (cases "songs m = []")
    case True
    then show ?thesis by (simp add: tick_idle)
  next
    case False
    with that have "\<not> hard_termination h m" by simp
    with False obtain self char_info where
      "tick h statics m = tick_run h self char_info statics m"
      by (rule tick_tick_run)
    then show ?thesis by (simp add: songs_tick_run)
  qed
  have tf: "fst (tick h statics m) =
          m\<lparr>current_index := (if current_index m + 1 \<ge> int (length (songs m)) \<or> current_index m + 1 < 0
                               then 0 else current_index m + 1),
            retry_count := retry_count m + 1\<rparr>
        \<and> songs (fst (tick h statics m)) = songs m
        \<and> retry_count (fst (tick h statics m)) = retry_count m + 1
        \<and> current_index (fst (tick h statics m)) =
            (if current_index m + 1 \<ge> int (length (songs m)) \<or> current_index m + 1 < 0
             then 0 else current_index m + 1)" if "targeting_failure h statics m"
    by (simp add: tick_targeting_failure [OF that])
  from tick_run_results [of h self char_info statics m] songs_tick_run [of h self char_info statics m]
    fr tf
  show ?thesis by blast
qed

text \<open>
  Two songs, the first one current.  A tick that casts the second song keeps the list;
  so does a tick that finds no target for it, which ends at index 1 with one retry
  counted.
\<close>

theorem tick_frame_songs_witness:
  "\<not> hard_termination standing_bard \<lparr>songs = [0, 1], current_index = 0, retry_count = 0\<rparr>
   \<and> songs (fst (tick standing_bard None \<lparr>songs = [0, 1], current_index = 0, retry_count = 0\<rparr>)) = [0, 1]
   \<and> targeting_failure untargeted_bard None \<lparr>songs = [0, 1], current_index = 0, retry_count = 0\<rparr>
   \<and> fst (tick untargeted_bard None \<lparr>songs = [0, 1], current_index = 0, retry_count = 0\<rparr>)
       = \<lparr>songs = [0, 1], current_index = 1, retry_count = 1\<rparr>"
proof -
  let ?m = "\<lparr>songs = [0, 1], current_index = 0, retry_count = 0\<rparr>"
  have nh: "\<not> hard_termination standing_bard ?m"
    by (simp add: hard_termination_def standing_bard_def RETRY_COUNT_END_LIMIT_def)
  have tf: "targeting_failure untargeted_bard None ?m"
    by code_simp
  show ?thesis
    using tick_frame_songs [of standing_bard _ _ None ?m]
      tick_frame_songs [of untargeted_bard _ _ None ?m] nh tf
    by simp
qed

text \<open>
  The claim as stated fails on the path of the missing target: the tick prints its
  complaint, counts a retry, and \<open>current_index\<close> has gone from 0 to 1.
\<close>

theorem targeting_failure_advances_index:
  "targeting_failure untargeted_bard None \<lparr>songs = [0, 1], current_index = 0, retry_count = 0\<rparr>
   \<and> tick untargeted_bard None \<lparr>songs = [0, 1], current_index = 0, retry_count = 0\<rparr>
       = (\<lparr>songs = [0, 1], current_index = 1, retry_count = 1\<rparr>,
          Some \<lparr>casting_visible_timestamp = 0, start_of_cast_timestamp = 0\<rparr>,
          [print_chat USERCOLOR_SPELL_FAILURE ''You must first select a target for spell %i'' [2]])
   \<and> current_index (fst (tick untargeted_bard None \<lparr>songs = [0, 1], current_index = 0, retry_count = 0\<rparr>))
       \<noteq> current_index \<lparr>songs = [0, 1], current_index = 0, retry_count = 0\<rparr>"
  by code_simp

end
